theory Spec2Isabelle
  imports Complex_Main
begin

section \<open>Data model of docs/frontend.js\<close>

text \<open>
  JavaScript numbers are modelled as \<^typ>\<open>real\<close>: every numeric field of a command is a
  finite number, and the code only adds and subtracts them. Colours, fonts and
  alignments are the strings the code hands to the canvas unchanged.
\<close>

record point =
  x :: real
  y :: real

text \<open>
  A command is the object \<^verbatim>\<open>cmd\<close> that \<^verbatim>\<open>paintCommand\<close> receives: a \<^verbatim>\<open>kind\<close> tag and the
  fields the five branches read. The fields \<^verbatim>\<open>from\<close>, \<^verbatim>\<open>to\<close>, \<^verbatim>\<open>size\<close> and \<^verbatim>\<open>text\<close> carry a
  prime because their plain names are taken. Commands are well-formed objects: every
  field a branch reads is there, with the type the schema gives it, so that reading
  \<^verbatim>\<open>cmd.pos.x\<close> never meets \<^verbatim>\<open>undefined\<close>. The \<^verbatim>\<open>kind\<close> is any string.
\<close>

record command =
  kind :: string
  fill_style :: string
  from' :: point
  to' :: point
  line_width :: real
  stroke_style :: string
  center :: point
  radius :: real
  pos :: point
  size' :: point
  corner_radius :: real
  font :: string
  text_align :: string
  text' :: string

text \<open>
  Everything \<^verbatim>\<open>paintCommand\<close> does to the 2D context \<^verbatim>\<open>ctx\<close>, one constructor for each
  property assignment and each method call of the source, with the arguments passed.
\<close>

datatype ctx_op =
    Set_fillStyle string
  | Set_lineWidth real
  | Set_strokeStyle string
  | Set_font string
  | Set_textAlign string
  | ClearRect real real real real
  | BeginPath
  | MoveTo real real
  | LineTo real real
  | QuadraticCurveTo real real real real
  | Arc real real real real real bool
  | ClosePath
  | Fill
  | Stroke
  | FillText string real real

text \<open>
  \<^verbatim>\<open>canvas.getBoundingClientRect()\<close>: the position of the canvas in the page. Only \<^verbatim>\<open>left\<close>
  and \<^verbatim>\<open>top\<close> are read.
\<close>

record dom_rect =
  left :: real
  top' :: real

text \<open>
  The canvas element: its dimensions, its bounding rectangle, and two logs. \<open>ctx\<close> holds the
  operations performed on its 2D context so far, oldest first. \<open>acquired_at\<close> holds one
  entry for every call of \<^verbatim>\<open>canvas.getContext("2d")\<close> so far, oldest first: the number of
  operations the context had seen when the call was made. Together they tell how often
  the context was acquired and between which operations.
\<close>

record canvas =
  width :: real
  height :: real
  getBoundingClientRect :: dom_rect
  acquired_at :: "nat list"
  ctx :: "ctx_op list"

record mouse_event =
  clientX :: real
  clientY :: real

record input =
  mouse_pos :: point
  screen_size :: point

datatype exn = Exn string

text \<open>
  What \<^verbatim>\<open>rust_gui\<close> calls and this file does not define: the two \<^verbatim>\<open>JSON\<close> built-ins and
  \<^verbatim>\<open>wasm_bindgen.show_gui\<close>, the logic layer compiled to WebAssembly. They are parameters
  of the model. \<^verbatim>\<open>show_gui\<close> and \<^verbatim>\<open>JSON.parse\<close> may throw.
\<close>

record host =
  JSON_stringify :: "input \<Rightarrow> string"
  show_gui :: "string \<Rightarrow> exn + string"
  JSON_parse :: "string \<Rightarrow> exn + command list"

section \<open>The interpreter\<close>

text \<open>\<^verbatim>\<open>Math.PI\<close>, the double nearest to \<open>\<pi>\<close>, is taken as \<open>\<pi>\<close> itself.\<close>

definition Math_PI :: real where
  "Math_PI = pi"

text \<open>
  \<^verbatim>\<open>canvas.getContext("2d")\<close>: the call is recorded; the context it returns is the one the
  canvas already has, so the result is the canvas with its context, ready for operations.
\<close>

definition getContext :: "canvas \<Rightarrow> canvas" where
  "getContext canvas = canvas\<lparr>acquired_at := acquired_at canvas @ [length (ctx canvas)]\<rparr>"

text \<open>One assignment to, or method call on, the context: the operation is appended to the log.\<close>

definition call :: "ctx_op \<Rightarrow> canvas \<Rightarrow> canvas" where
  "call op canvas = canvas\<lparr>ctx := ctx canvas @ [op]\<rparr>"

text \<open>
  \<^verbatim>\<open>paintCommand(canvas, cmd)\<close>: first \<^verbatim>\<open>var ctx = canvas.getContext("2d")\<close>, then the \<^verbatim>\<open>switch\<close>
  on \<^verbatim>\<open>cmd.kind\<close>, each branch the source's statements in their order, performed on
  \<^verbatim>\<open>ctx\<close>. A \<^verbatim>\<open>switch\<close> without \<^verbatim>\<open>default\<close> falls through to the end of the function when no
  \<^verbatim>\<open>case\<close> matches: then the acquisition is all that has happened.
\<close>

definition paintCommand :: "canvas \<Rightarrow> command \<Rightarrow> canvas" where
  "paintCommand canvas cmd =
    (let ctx = getContext canvas in
     if kind cmd = ''clear'' then
       fold call
         [Set_fillStyle (fill_style cmd),
          ClearRect 0 0 (canvas.width canvas) (canvas.height canvas)] ctx
     else if kind cmd = ''line'' then
       fold call
         [BeginPath,
          Set_lineWidth (line_width cmd),
          Set_strokeStyle (stroke_style cmd),
          MoveTo (point.x (from' cmd)) (point.y (from' cmd)),
          LineTo (point.x (to' cmd)) (point.y (to' cmd)),
          Stroke] ctx
     else if kind cmd = ''circle'' then
       fold call
         [Set_fillStyle (fill_style cmd),
          BeginPath,
          Arc (point.x (center cmd)) (point.y (center cmd)) (radius cmd) 0 (2 * Math_PI) False,
          Fill] ctx
     else if kind cmd = ''rounded_rect'' then
       (let x = point.x (pos cmd);
            y = point.y (pos cmd);
            width = point.x (size' cmd);
            height = point.y (size' cmd);
            r = corner_radius cmd
        in fold call
         [Set_fillStyle (fill_style cmd),
          BeginPath,
          MoveTo (x + r) y,
          LineTo (x + width - r) y,
          QuadraticCurveTo (x + width) y (x + width) (y + r),
          LineTo (x + width) (y + height - r),
          QuadraticCurveTo (x + width) (y + height) (x + width - r) (y + height),
          LineTo (x + r) (y + height),
          QuadraticCurveTo x (y + height) x (y + height - r),
          LineTo x (y + r),
          QuadraticCurveTo x y (x + r) y,
          ClosePath,
          Fill] ctx)
     else if kind cmd = ''text'' then
       fold call
         [Set_font (font cmd),
          Set_fillStyle (fill_style cmd),
          Set_textAlign (text_align cmd),
          FillText (text' cmd) (point.x (pos cmd)) (point.y (pos cmd))] ctx
     else ctx)"

text \<open>The operations one run of \<^verbatim>\<open>paintCommand\<close> adds to the log.\<close>

definition issued :: "canvas \<Rightarrow> command \<Rightarrow> ctx_op list" where
  "issued canvas cmd = drop (length (ctx canvas)) (ctx (paintCommand canvas cmd))"

text \<open>
  Where a frame that interprets \<open>cmds\<close> in order finds the log of the context at the start
  of each command: at its length before the frame, plus the operations of the commands
  before that one.
\<close>

definition command_starts :: "canvas \<Rightarrow> command list \<Rightarrow> nat list" where
  "command_starts canvas cmds =
    map (\<lambda>i. length (ctx canvas) + length (concat (map (issued canvas) (take i cmds))))
      [0..<length cmds]"

section \<open>The frame driver\<close>

text \<open>\<^verbatim>\<open>rust_gui(input)\<close>: a throw of \<^verbatim>\<open>show_gui\<close> or of \<^verbatim>\<open>JSON.parse\<close> leaves the function.\<close>

definition rust_gui :: "host \<Rightarrow> input \<Rightarrow> exn + command list" where
  "rust_gui h inp =
    (case show_gui h (JSON_stringify h inp) of
       Inl e \<Rightarrow> Inl e
     | Inr s \<Rightarrow> JSON_parse h s)"

text \<open>The \<^verbatim>\<open>for\<close> loop of \<^verbatim>\<open>paint_gui\<close>, with its index.\<close>

function paint_loop :: "canvas \<Rightarrow> command list \<Rightarrow> nat \<Rightarrow> canvas" where
  "paint_loop canvas commands_1 i =
    (if i < length commands_1
     then paint_loop (paintCommand canvas (commands_1 ! i)) commands_1 (i + 1)
     else canvas)"
  by pat_completeness auto
termination
  by (relation "measure (\<lambda>(canvas, commands_1, i). length commands_1 - i)") auto

declare paint_loop.simps [simp del]

text \<open>
  \<^verbatim>\<open>paint_gui(canvas, mouse_pos)\<close> returns nothing and catches nothing: the result is the
  exception that left it, if any, and the canvas as it is then.
\<close>

definition paint_gui :: "host \<Rightarrow> canvas \<Rightarrow> point \<Rightarrow> exn option \<times> canvas" where
  "paint_gui h canvas mouse_pos_arg =
    (let inp = \<lparr>mouse_pos = mouse_pos_arg,
                screen_size = \<lparr>x = canvas.width canvas, y = canvas.height canvas\<rparr>\<rparr>
     in case rust_gui h inp of
          Inl e \<Rightarrow> (Some e, canvas)
        | Inr commands \<Rightarrow> (None, paint_loop canvas commands 0))"

section \<open>The input adapter\<close>

definition mouse_pos_from_event :: "canvas \<Rightarrow> mouse_event \<Rightarrow> point" where
  "mouse_pos_from_event canvas evt =
    (let rect = getBoundingClientRect canvas
     in \<lparr>x = clientX evt - left rect, y = clientY evt - top' rect\<rparr>)"

section \<open>Reading a path off the log\<close>

text \<open>
  What the path-building calls mean on a canvas context: \<^verbatim>\<open>beginPath\<close> empties the
  current path, \<^verbatim>\<open>moveTo\<close> starts a subpath, \<^verbatim>\<open>lineTo\<close> and \<^verbatim>\<open>quadraticCurveTo\<close> add a
  segment from the last point, \<^verbatim>\<open>closePath\<close> marks the subpath closed and returns to its
  first point. Assignments of styles and the painting calls leave the path alone.
  An \<^verbatim>\<open>arc\<close> is not read as segments: tracing stops there with \<open>None\<close>.
\<close>

datatype segment =
    Straight point point
  | Quadratic point point point

record path_state =
  first_point :: "point option"
  last_point :: "point option"
  traced :: "segment list"
  shut :: bool

definition no_path :: path_state where
  "no_path = \<lparr>first_point = None, last_point = None, traced = [], shut = False\<rparr>"

fun path_step :: "ctx_op \<Rightarrow> path_state \<Rightarrow> path_state option" where
  "path_step BeginPath s = Some no_path"
| "path_step (MoveTo a b) s =
     Some (s\<lparr>first_point := Some \<lparr>x = a, y = b\<rparr>, last_point := Some \<lparr>x = a, y = b\<rparr>\<rparr>)"
| "path_step (LineTo a b) s =
     (case last_point s of
        None \<Rightarrow>
          Some (s\<lparr>first_point := Some \<lparr>x = a, y = b\<rparr>, last_point := Some \<lparr>x = a, y = b\<rparr>\<rparr>)
      | Some p \<Rightarrow>
          Some (s\<lparr>last_point := Some \<lparr>x = a, y = b\<rparr>,
                  traced := traced s @ [Straight p \<lparr>x = a, y = b\<rparr>]\<rparr>))"
| "path_step (QuadraticCurveTo cpx cpy a b) s =
     (case last_point s of
        None \<Rightarrow>
          Some (s\<lparr>first_point := Some \<lparr>x = cpx, y = cpy\<rparr>,
                  last_point := Some \<lparr>x = a, y = b\<rparr>,
                  traced := traced s @
                    [Quadratic \<lparr>x = cpx, y = cpy\<rparr> \<lparr>x = cpx, y = cpy\<rparr> \<lparr>x = a, y = b\<rparr>]\<rparr>)
      | Some p \<Rightarrow>
          Some (s\<lparr>last_point := Some \<lparr>x = a, y = b\<rparr>,
                  traced := traced s @ [Quadratic p \<lparr>x = cpx, y = cpy\<rparr> \<lparr>x = a, y = b\<rparr>]\<rparr>))"
| "path_step ClosePath s =
     (case first_point s of
        None \<Rightarrow> Some s
      | Some p \<Rightarrow> Some (s\<lparr>last_point := Some p, shut := True\<rparr>))"
| "path_step (Arc cx cy r a0 a1 ccw) s = None"
| "path_step (Set_fillStyle v) s = Some s"
| "path_step (Set_lineWidth v) s = Some s"
| "path_step (Set_strokeStyle v) s = Some s"
| "path_step (Set_font v) s = Some s"
| "path_step (Set_textAlign v) s = Some s"
| "path_step (ClearRect a b w h) s = Some s"
| "path_step Fill s = Some s"
| "path_step Stroke s = Some s"
| "path_step (FillText t a b) s = Some s"

fun trace :: "ctx_op list \<Rightarrow> path_state \<Rightarrow> path_state option" where
  "trace [] s = Some s"
| "trace (op # ops) s =
     (case path_step op s of None \<Rightarrow> None | Some s' \<Rightarrow> trace ops s')"

text \<open>The path that is current when one run of \<^verbatim>\<open>paintCommand\<close> ends.\<close>

definition command_path :: "canvas \<Rightarrow> command \<Rightarrow> path_state option" where
  "command_path canvas cmd = trace (issued canvas cmd) no_path"

subsection \<open>The outlines as the specification words them\<close>

definition offset :: "point \<Rightarrow> real \<Rightarrow> real \<Rightarrow> point" where
  "offset p dx dy = \<lparr>x = point.x p + dx, y = point.y p + dy\<rparr>"

text \<open>
  The rounded rectangle of the specification: eight segments, clockwise from the top
  edge just right of the top-left corner, edges and corners alternating. Each corner is
  a quadratic curve whose control point is the corner of the rectangle and whose two
  endpoints lie at distance \<open>r\<close> from it on the two edges that meet there.
\<close>

definition rounded_rect_outline :: "point \<Rightarrow> point \<Rightarrow> real \<Rightarrow> segment list" where
  "rounded_rect_outline p sz r =
    (let top_left = p;
         top_right = offset p (point.x sz) 0;
         bottom_right = offset p (point.x sz) (point.y sz);
         bottom_left = offset p 0 (point.y sz)
     in [Straight (offset top_left r 0) (offset top_right (- r) 0),
         Quadratic (offset top_right (- r) 0) top_right (offset top_right 0 r),
         Straight (offset top_right 0 r) (offset bottom_right 0 (- r)),
         Quadratic (offset bottom_right 0 (- r)) bottom_right (offset bottom_right (- r) 0),
         Straight (offset bottom_right (- r) 0) (offset bottom_left r 0),
         Quadratic (offset bottom_left r 0) bottom_left (offset bottom_left 0 (- r)),
         Straight (offset bottom_left 0 (- r)) (offset top_left 0 r),
         Quadratic (offset top_left 0 r) top_left (offset top_left r 0)])"

text \<open>The plain rectangle from \<open>p\<close> to \<open>p + sz\<close>, clockwise from its top-left corner.\<close>

definition rectangle_outline :: "point \<Rightarrow> point \<Rightarrow> segment list" where
  "rectangle_outline p sz =
    (let top_left = p;
         top_right = offset p (point.x sz) 0;
         bottom_right = offset p (point.x sz) (point.y sz);
         bottom_left = offset p 0 (point.y sz)
     in [Straight top_left top_right,
         Straight top_right bottom_right,
         Straight bottom_right bottom_left,
         Straight bottom_left top_left])"

text \<open>A curve that has shrunk to a point: both endpoints are the control point.\<close>

fun collapsed :: "segment \<Rightarrow> bool" where
  "collapsed (Quadratic p c q) = (p = c \<and> q = c)"
| "collapsed (Straight p q) = False"

section \<open>Sample inputs\<close>

definition sample_canvas :: canvas where
  "sample_canvas =
    \<lparr>width = 800, height = 600,
     getBoundingClientRect = \<lparr>left = 50, top' = 50\<rparr>,
     acquired_at = [0],
     ctx = [Set_fillStyle ''#ff1111'', Fill]\<rparr>"

definition wide_canvas :: canvas where
  "wide_canvas =
    \<lparr>width = 1024, height = 768,
     getBoundingClientRect = \<lparr>left = 0, top' = 0\<rparr>,
     acquired_at = [],
     ctx = []\<rparr>"

definition origin :: point where
  "origin = \<lparr>x = 0, y = 0\<rparr>"

definition blank_command :: command where
  "blank_command =
    \<lparr>kind = [], fill_style = ''#111111'', from' = origin, to' = origin, line_width = 1,
     stroke_style = ''#ffffff'', center = origin, radius = 1, pos = origin,
     size' = origin, corner_radius = 0, font = ''14px sans'', text_align = ''left'',
     text' = []\<rparr>"

definition triangle_command :: command where
  "triangle_command = blank_command\<lparr>kind := ''triangle''\<rparr>"

definition clear_command :: command where
  "clear_command = blank_command\<lparr>kind := ''clear''\<rparr>"

definition circle_command :: command where
  "circle_command =
    blank_command\<lparr>kind := ''circle'', center := \<lparr>x = 40, y = 30\<rparr>, radius := 5,
                    fill_style := ''#ff1111''\<rparr>"

definition rounded_rect_command :: command where
  "rounded_rect_command =
    blank_command\<lparr>kind := ''rounded_rect'', pos := \<lparr>x = 100, y = 100\<rparr>,
                    size' := \<lparr>x = 200, y = 100\<rparr>, corner_radius := 20,
                    fill_style := ''#ff1111''\<rparr>"

definition square_rect_command :: command where
  "square_rect_command = rounded_rect_command\<lparr>corner_radius := 0\<rparr>"

text \<open>A logic layer that answers every snapshot with the same two commands.\<close>

definition sample_host :: host where
  "sample_host =
    \<lparr>JSON_stringify = (\<lambda>inp. ''snapshot''),
     show_gui = (\<lambda>s. Inr ''commands''),
     JSON_parse = (\<lambda>s. Inr [clear_command, rounded_rect_command])\<rparr>"

text \<open>A logic layer that answers every snapshot with no command at all.\<close>

definition idle_host :: host where
  "idle_host = sample_host\<lparr>JSON_parse := (\<lambda>s. Inr [])\<rparr>"

text \<open>A logic layer that throws.\<close>

definition failing_host :: host where
  "failing_host = sample_host\<lparr>show_gui := (\<lambda>s. Inl (Exn ''unreachable''))\<rparr>"

definition sample_event :: mouse_event where
  "sample_event = \<lparr>clientX = 150, clientY = 150\<rparr>"

section \<open>Properties of the log\<close>

lemma paintCommand_log:
  "paintCommand canvas cmd =
     canvas\<lparr>acquired_at := acquired_at canvas @ [length (ctx canvas)],
            ctx := ctx canvas @ issued canvas cmd\<rparr>"
  by (simp add: paintCommand_def issued_def Let_def call_def getContext_def)

lemma issued_same_size:
  "canvas.width c1 = canvas.width c2 \<Longrightarrow> canvas.height c1 = canvas.height c2 \<Longrightarrow>
   issued c1 cmd = issued c2 cmd"
  by (simp add: paintCommand_def issued_def Let_def call_def getContext_def)

lemma command_starts_snoc:
  "command_starts canvas (cmds @ [cmd]) =
     command_starts canvas cmds
       @ [length (ctx canvas) + length (concat (map (issued canvas) cmds))]"
  by (simp add: command_starts_def)

lemma foldl_paintCommand_log:
  "foldl paintCommand canvas cmds =
     canvas\<lparr>acquired_at := acquired_at canvas @ command_starts canvas cmds,
            ctx := ctx canvas @ concat (map (issued canvas) cmds)\<rparr>"
proof (induction cmds rule: rev_induct)
  case Nil
  show ?case by (simp add: command_starts_def)
next
  case (snoc cmd cmds)
  let ?c = "canvas\<lparr>acquired_at := acquired_at canvas @ command_starts canvas cmds,
                   ctx := ctx canvas @ concat (map (issued canvas) cmds)\<rparr>"
  have same: "issued ?c cmd = issued canvas cmd"
    by (rule issued_same_size) simp_all
  have "foldl paintCommand canvas (cmds @ [cmd]) = paintCommand ?c cmd"
    by (simp add: snoc.IH)
  also have "\<dots> = ?c\<lparr>acquired_at := acquired_at ?c @ [length (ctx ?c)],
                     ctx := ctx ?c @ issued ?c cmd\<rparr>"
    by (rule paintCommand_log)
  finally show ?case
    by (simp add: same command_starts_snoc)
qed

lemma paint_loop_drop:
  "paint_loop canvas cmds i = foldl paintCommand canvas (drop i cmds)"
proof (induction canvas cmds i rule: paint_loop.induct)
  case (1 canvas commands_1 i)
  show ?case
  proof (cases "i < length commands_1")
    case True
    then have "drop i commands_1 = commands_1 ! i # drop (Suc i) commands_1"
      by (simp add: Cons_nth_drop_Suc)
    with True "1.IH" show ?thesis
      by (simp add: paint_loop.simps [of canvas commands_1 i])
  next
    case False
    then show ?thesis
      by (simp add: paint_loop.simps [of canvas commands_1 i])
  qed
qed

lemma issued_rounded_rect:
  assumes "kind cmd = ''rounded_rect''"
  shows "issued canvas cmd =
    [Set_fillStyle (fill_style cmd),
     BeginPath,
     MoveTo (point.x (pos cmd) + corner_radius cmd) (point.y (pos cmd)),
     LineTo (point.x (pos cmd) + point.x (size' cmd) - corner_radius cmd) (point.y (pos cmd)),
     QuadraticCurveTo (point.x (pos cmd) + point.x (size' cmd)) (point.y (pos cmd))
       (point.x (pos cmd) + point.x (size' cmd)) (point.y (pos cmd) + corner_radius cmd),
     LineTo (point.x (pos cmd) + point.x (size' cmd))
       (point.y (pos cmd) + point.y (size' cmd) - corner_radius cmd),
     QuadraticCurveTo (point.x (pos cmd) + point.x (size' cmd))
       (point.y (pos cmd) + point.y (size' cmd))
       (point.x (pos cmd) + point.x (size' cmd) - corner_radius cmd)
       (point.y (pos cmd) + point.y (size' cmd)),
     LineTo (point.x (pos cmd) + corner_radius cmd) (point.y (pos cmd) + point.y (size' cmd)),
     QuadraticCurveTo (point.x (pos cmd)) (point.y (pos cmd) + point.y (size' cmd))
       (point.x (pos cmd)) (point.y (pos cmd) + point.y (size' cmd) - corner_radius cmd),
     LineTo (point.x (pos cmd)) (point.y (pos cmd) + corner_radius cmd),
     QuadraticCurveTo (point.x (pos cmd)) (point.y (pos cmd))
       (point.x (pos cmd) + corner_radius cmd) (point.y (pos cmd)),
     ClosePath,
     Fill]"
  using assms by (simp add: paintCommand_def issued_def call_def getContext_def Let_def)

lemma command_path_rounded_rect:
  assumes "kind cmd = ''rounded_rect''"
  shows "command_path canvas cmd =
    Some \<lparr>first_point = Some (offset (pos cmd) (corner_radius cmd) 0),
          last_point = Some (offset (pos cmd) (corner_radius cmd) 0),
          traced = rounded_rect_outline (pos cmd) (size' cmd) (corner_radius cmd),
          shut = True\<rparr>"
  by (simp add: command_path_def issued_rounded_rect [OF assms] no_path_def
      rounded_rect_outline_def offset_def Let_def algebra_simps)

lemma clear_reads_dimensions:
  assumes "kind cmd = ''clear''"
  shows "issued c1 cmd = issued c2 cmd
           \<longleftrightarrow> canvas.width c1 = canvas.width c2 \<and> canvas.height c1 = canvas.height c2"
  using assms by (simp add: paintCommand_def issued_def call_def getContext_def Let_def)

section \<open>The claims\<close>

text \<open>
  C1, as amended. For a \<^verbatim>\<open>clear\<close> command \<^verbatim>\<open>paintCommand\<close> first assigns \<^verbatim>\<open>cmd.fill_style\<close> to
  the fill colour of the context and then issues one clear-rect from \<open>(0, 0)\<close> over the
  full width and height of the canvas, and nothing more: no fill is invoked, so the
  colour is set but never painted with.
\<close>

theorem clear_sets_fill_then_clears:
  assumes "kind cmd = ''clear''"
  shows "issued canvas cmd =
           [Set_fillStyle (fill_style cmd),
            ClearRect 0 0 (canvas.width canvas) (canvas.height canvas)]
         \<and> Fill \<notin> set (issued canvas cmd)"
  using assms by (simp add: paintCommand_def issued_def call_def getContext_def Let_def)

text \<open>Witness of C1 as amended: the clear command on the 800 by 600 sample canvas.\<close>

theorem clear_sets_fill_then_clears_witness:
  "kind clear_command = ''clear''
   \<and> issued sample_canvas clear_command = [Set_fillStyle ''#111111'', ClearRect 0 0 800 600]
   \<and> Fill \<notin> set (issued sample_canvas clear_command)"
proof -
  have k: "kind clear_command = ''clear''"
    by (simp add: clear_command_def)
  from k clear_sets_fill_then_clears [OF k, of sample_canvas] show ?thesis
    by (simp add: clear_command_def blank_command_def sample_canvas_def)
qed

text \<open>
  C1 as first stated does not hold: it has the clear-rect as the only operation and no
  assignment of the fill colour. On the sample canvas the operations issued are not the
  clear-rect alone, and the assignment of \<^verbatim>\<open>fill_style\<close> is among them.
\<close>

theorem clear_counterexample:
  "issued sample_canvas clear_command
     \<noteq> [ClearRect 0 0 (canvas.width sample_canvas) (canvas.height sample_canvas)]
   \<and> Set_fillStyle (fill_style clear_command) \<in> set (issued sample_canvas clear_command)"
  by (simp add: paintCommand_def issued_def call_def getContext_def Let_def clear_command_def blank_command_def
      sample_canvas_def)

text \<open>
  C2. A command whose \<^verbatim>\<open>kind\<close> is none of the five strings of the \<^verbatim>\<open>switch\<close> matches no
  \<^verbatim>\<open>case\<close>: \<^verbatim>\<open>paintCommand\<close> issues no operation on the context and returns the canvas
  with its dimensions, its bounding rectangle and the log of its context as they were;
  the one thing recorded is that the context was acquired. The function is total, so it
  returns and does not throw.
\<close>

theorem unknown_kind_no_op:
  assumes "kind cmd \<notin> {''clear'', ''line'', ''circle'', ''rounded_rect'', ''text''}"
  shows "paintCommand canvas cmd
           = canvas\<lparr>acquired_at := acquired_at canvas @ [length (ctx canvas)]\<rparr>
         \<and> ctx (paintCommand canvas cmd) = ctx canvas
         \<and> canvas.width (paintCommand canvas cmd) = canvas.width canvas
         \<and> canvas.height (paintCommand canvas cmd) = canvas.height canvas
         \<and> getBoundingClientRect (paintCommand canvas cmd) = getBoundingClientRect canvas
         \<and> issued canvas cmd = []"
  using assms by (simp add: paintCommand_def issued_def getContext_def)

text \<open>Witness of C2: the kind \<^verbatim>\<open>triangle\<close> on the sample canvas.\<close>

theorem unknown_kind_no_op_witness:
  "kind triangle_command \<notin> {''clear'', ''line'', ''circle'', ''rounded_rect'', ''text''}
   \<and> ctx (paintCommand sample_canvas triangle_command) = [Set_fillStyle ''#ff1111'', Fill]
   \<and> paintCommand sample_canvas triangle_command = sample_canvas\<lparr>acquired_at := [0, 2]\<rparr>
   \<and> issued sample_canvas triangle_command = []"
proof -
  have k: "kind triangle_command
             \<notin> {''clear'', ''line'', ''circle'', ''rounded_rect'', ''text''}"
    by (simp add: triangle_command_def blank_command_def)
  from k unknown_kind_no_op [OF k, of sample_canvas] show ?thesis
    by (simp add: sample_canvas_def)
qed

text \<open>
  C3. For a \<^verbatim>\<open>rounded_rect\<close> command the operations are, in this order: the assignment of
  the fill colour, \<^verbatim>\<open>beginPath\<close>, a \<^verbatim>\<open>moveTo\<close> to the point \<open>r\<close> right of the top-left corner,
  then top edge, top-right corner, right edge, bottom-right corner, bottom edge,
  bottom-left corner, left edge, top-left corner, then \<^verbatim>\<open>closePath\<close> and \<^verbatim>\<open>fill\<close>. Read as a
  path, these are the eight segments of \<open>rounded_rect_outline\<close>: every corner a quadratic
  curve with the corner of the rectangle as control point and endpoints \<open>r\<close> away on the
  adjoining edges. The path ends where it began and is closed. With \<open>y\<close> growing downwards,
  as on a canvas, the order is clockwise.
\<close>

theorem rounded_rect_path:
  assumes "kind cmd = ''rounded_rect''"
  shows "(let x = point.x (pos cmd);
              y = point.y (pos cmd);
              width = point.x (size' cmd);
              height = point.y (size' cmd);
              r = corner_radius cmd
          in issued canvas cmd =
             [Set_fillStyle (fill_style cmd),
              BeginPath,
              MoveTo (x + r) y,
              LineTo (x + width - r) y,
              QuadraticCurveTo (x + width) y (x + width) (y + r),
              LineTo (x + width) (y + height - r),
              QuadraticCurveTo (x + width) (y + height) (x + width - r) (y + height),
              LineTo (x + r) (y + height),
              QuadraticCurveTo x (y + height) x (y + height - r),
              LineTo x (y + r),
              QuadraticCurveTo x y (x + r) y,
              ClosePath,
              Fill])
    \<and> command_path canvas cmd =
        Some \<lparr>first_point = Some (offset (pos cmd) (corner_radius cmd) 0),
              last_point = Some (offset (pos cmd) (corner_radius cmd) 0),
              traced = rounded_rect_outline (pos cmd) (size' cmd) (corner_radius cmd),
              shut = True\<rparr>"
  by (simp add: issued_rounded_rect [OF assms] command_path_rounded_rect [OF assms] Let_def)

text \<open>
  Witness of C3: the rectangle at \<open>(100, 100)\<close> of size 200 by 100 with corner radius 20.
\<close>

theorem rounded_rect_path_witness:
  "kind rounded_rect_command = ''rounded_rect''
   \<and> take 4 (issued sample_canvas rounded_rect_command) =
       [Set_fillStyle ''#ff1111'', BeginPath, MoveTo 120 100, LineTo 280 100]
   \<and> map_option traced (command_path sample_canvas rounded_rect_command) =
       Some [Straight \<lparr>x = 120, y = 100\<rparr> \<lparr>x = 280, y = 100\<rparr>,
             Quadratic \<lparr>x = 280, y = 100\<rparr> \<lparr>x = 300, y = 100\<rparr> \<lparr>x = 300, y = 120\<rparr>,
             Straight \<lparr>x = 300, y = 120\<rparr> \<lparr>x = 300, y = 180\<rparr>,
             Quadratic \<lparr>x = 300, y = 180\<rparr> \<lparr>x = 300, y = 200\<rparr> \<lparr>x = 280, y = 200\<rparr>,
             Straight \<lparr>x = 280, y = 200\<rparr> \<lparr>x = 120, y = 200\<rparr>,
             Quadratic \<lparr>x = 120, y = 200\<rparr> \<lparr>x = 100, y = 200\<rparr> \<lparr>x = 100, y = 180\<rparr>,
             Straight \<lparr>x = 100, y = 180\<rparr> \<lparr>x = 100, y = 120\<rparr>,
             Quadratic \<lparr>x = 100, y = 120\<rparr> \<lparr>x = 100, y = 100\<rparr> \<lparr>x = 120, y = 100\<rparr>]"
proof -
  have k: "kind rounded_rect_command = ''rounded_rect''"
    by (simp add: rounded_rect_command_def)
  from k rounded_rect_path [OF k, of sample_canvas] show ?thesis
    by (simp add: rounded_rect_command_def blank_command_def rounded_rect_outline_def
        offset_def Let_def)
qed

text \<open>
  C4. For a \<^verbatim>\<open>circle\<close> command, whatever its \<^verbatim>\<open>radius\<close>, the operations are the assignment of
  the fill colour, \<^verbatim>\<open>beginPath\<close>, one \<^verbatim>\<open>arc\<close> around \<^verbatim>\<open>center\<close> with that radius from angle 0 to
  \<open>2\<pi>\<close>, not counterclockwise, and \<^verbatim>\<open>fill\<close>.
\<close>

theorem circle_full_sweep:
  assumes "kind cmd = ''circle''"
  shows "issued canvas cmd =
           [Set_fillStyle (fill_style cmd),
            BeginPath,
            Arc (point.x (center cmd)) (point.y (center cmd)) (radius cmd) 0 (2 * pi) False,
            Fill]"
  using assms by (simp add: paintCommand_def issued_def call_def getContext_def Let_def Math_PI_def)

text \<open>Witness of C4: a circle of radius 5 around \<open>(40, 30)\<close>.\<close>

theorem circle_full_sweep_witness:
  "kind circle_command = ''circle''
   \<and> issued sample_canvas circle_command =
       [Set_fillStyle ''#ff1111'', BeginPath, Arc 40 30 5 0 (2 * pi) False, Fill]"
proof -
  have k: "kind circle_command = ''circle''"
    by (simp add: circle_command_def)
  from k circle_full_sweep [OF k, of sample_canvas] show ?thesis
    by (simp add: circle_command_def)
qed

text \<open>
  C5, as amended. \<^verbatim>\<open>paint_gui\<close> hands the logic layer the snapshot made of the mouse position
  and the dimensions of the canvas. When the logic layer answers with a command sequence,
  the frame ends without an exception and every command has been interpreted once, in
  the order of the sequence: the log of the context has grown by the operations of each
  command in turn, those of a later command after those of an earlier one. \<^verbatim>\<open>paint_gui\<close>
  itself acquires no context. \<^verbatim>\<open>paintCommand\<close> does, at the start of every command: once for
  each command, right before the operations of that command, and so not at all when the
  sequence is empty. Nothing else on the canvas changes.
\<close>

theorem frame_in_order:
  assumes "show_gui h (JSON_stringify h
             \<lparr>mouse_pos = p,
              screen_size = \<lparr>x = canvas.width canvas, y = canvas.height canvas\<rparr>\<rparr>) = Inr s"
    and "JSON_parse h s = Inr commands"
  shows "paint_gui h canvas p =
           (None, canvas\<lparr>acquired_at := acquired_at canvas @ command_starts canvas commands,
                         ctx := ctx canvas @ concat (map (issued canvas) commands)\<rparr>)
         \<and> length (command_starts canvas commands) = length commands"
  using assms
  by (simp add: paint_gui_def rust_gui_def paint_loop_drop foldl_paintCommand_log
      command_starts_def)

text \<open>
  Witness of C5 as amended: a logic layer answering with a clear and a rounded rectangle,
  on a canvas that already shows two operations of an earlier frame. The context is
  acquired twice, after 2 and after 4 operations.
\<close>

theorem frame_in_order_witness:
  "show_gui sample_host (JSON_stringify sample_host
      \<lparr>mouse_pos = origin,
       screen_size = \<lparr>x = canvas.width sample_canvas, y = canvas.height sample_canvas\<rparr>\<rparr>)
     = Inr ''commands''
   \<and> JSON_parse sample_host ''commands'' = Inr [clear_command, rounded_rect_command]
   \<and> paint_gui sample_host sample_canvas origin =
       (None, sample_canvas\<lparr>acquired_at := [0, 2, 4], ctx :=
          [Set_fillStyle ''#ff1111'', Fill,
           Set_fillStyle ''#111111'', ClearRect 0 0 800 600,
           Set_fillStyle ''#ff1111'', BeginPath,
           MoveTo 120 100,
           LineTo 280 100, QuadraticCurveTo 300 100 300 120,
           LineTo 300 180, QuadraticCurveTo 300 200 280 200,
           LineTo 120 200, QuadraticCurveTo 100 200 100 180,
           LineTo 100 120, QuadraticCurveTo 100 100 120 100,
           ClosePath, Fill]\<rparr>)"
proof -
  let ?snap = "\<lparr>mouse_pos = origin,
       screen_size = \<lparr>x = canvas.width sample_canvas, y = canvas.height sample_canvas\<rparr>\<rparr>"
  have a: "show_gui sample_host (JSON_stringify sample_host ?snap) = Inr ''commands''"
    by (simp add: sample_host_def)
  have b: "JSON_parse sample_host ''commands'' = Inr [clear_command, rounded_rect_command]"
    by (simp add: sample_host_def)
  have c: "issued sample_canvas clear_command =
             [Set_fillStyle ''#111111'', ClearRect 0 0 800 600]"
    by (simp add: issued_def paintCommand_def call_def getContext_def Let_def
        clear_command_def blank_command_def sample_canvas_def)
  have d: "issued sample_canvas rounded_rect_command =
             [Set_fillStyle ''#ff1111'', BeginPath,
              MoveTo 120 100,
              LineTo 280 100, QuadraticCurveTo 300 100 300 120,
              LineTo 300 180, QuadraticCurveTo 300 200 280 200,
              LineTo 120 200, QuadraticCurveTo 100 200 100 180,
              LineTo 100 120, QuadraticCurveTo 100 100 120 100,
              ClosePath, Fill]"
    by (simp add: issued_def paintCommand_def call_def getContext_def
        rounded_rect_command_def blank_command_def Let_def)
  have e: "ctx sample_canvas = [Set_fillStyle ''#ff1111'', Fill]"
    and f: "acquired_at sample_canvas = [0]"
    by (simp_all add: sample_canvas_def)
  have g: "command_starts sample_canvas [clear_command, rounded_rect_command] = [2, 4]"
    by (simp add: command_starts_def c e upt_rec [of 0] upt_rec [of 1] upt_rec [of 2])
  from a b frame_in_order [OF a b] show ?thesis
    by (simp add: c d e f g)
qed

text \<open>
  C5 as first stated does not hold: it has the driver acquire one drawing handle between
  the answer of the logic layer and the first command, which would add one entry, the
  length of the log at that moment, to the record of acquisitions. With a logic layer
  that answers with no command, the frame acquires no context at all and returns the
  canvas as it was. With the clear and the rounded rectangle, the context is acquired
  twice, the second time after the two operations of the clear.
\<close>

theorem frame_handle_counterexample:
  "paint_gui idle_host sample_canvas origin = (None, sample_canvas)
   \<and> acquired_at (snd (paint_gui idle_host sample_canvas origin))
       \<noteq> acquired_at sample_canvas @ [length (ctx sample_canvas)]
   \<and> acquired_at (snd (paint_gui sample_host sample_canvas origin))
       = acquired_at sample_canvas @ [2, 4]
   \<and> acquired_at (snd (paint_gui sample_host sample_canvas origin))
       \<noteq> acquired_at sample_canvas @ [length (ctx sample_canvas)]"
proof -
  have idle: "paint_gui idle_host sample_canvas origin = (None, sample_canvas)"
    by (simp add: paint_gui_def rust_gui_def idle_host_def sample_host_def
        paint_loop.simps [of _ "[]"])
  have c: "issued sample_canvas clear_command =
             [Set_fillStyle ''#111111'', ClearRect 0 0 800 600]"
    by (simp add: issued_def paintCommand_def call_def getContext_def Let_def
        clear_command_def blank_command_def sample_canvas_def)
  have e: "ctx sample_canvas = [Set_fillStyle ''#ff1111'', Fill]"
    by (simp add: sample_canvas_def)
  have g: "command_starts sample_canvas [clear_command, rounded_rect_command] = [2, 4]"
    by (simp add: command_starts_def c e upt_rec [of 0] upt_rec [of 1] upt_rec [of 2])
  have busy: "acquired_at (snd (paint_gui sample_host sample_canvas origin))
                = acquired_at sample_canvas @ [2, 4]"
    by (simp add: paint_gui_def rust_gui_def sample_host_def paint_loop_drop
        foldl_paintCommand_log g del: foldl_Cons)
  show ?thesis
    by (simp add: idle busy e)
qed

text \<open>
  C6. \<^verbatim>\<open>mouse_pos_from_event\<close> subtracts the left and top of the bounding rectangle of the
  canvas from the client coordinates of the event. An event at \<open>(150, 150)\<close> over a canvas
  whose bounding rectangle starts at \<open>(50, 50)\<close> gives the point \<open>(100, 100)\<close>.
\<close>

theorem local_point:
  "mouse_pos_from_event canvas evt =
     \<lparr>x = clientX evt - left (getBoundingClientRect canvas),
      y = clientY evt - top' (getBoundingClientRect canvas)\<rparr>
   \<and> (clientX evt = 150 \<and> clientY evt = 150
        \<and> left (getBoundingClientRect canvas) = 50
        \<and> top' (getBoundingClientRect canvas) = 50
      \<longrightarrow> mouse_pos_from_event canvas evt = \<lparr>x = 100, y = 100\<rparr>)"
  by (simp add: mouse_pos_from_event_def Let_def)

text \<open>Witness of C6: the sample event over the sample canvas.\<close>

theorem local_point_witness:
  "clientX sample_event = 150 \<and> clientY sample_event = 150
   \<and> left (getBoundingClientRect sample_canvas) = 50
   \<and> top' (getBoundingClientRect sample_canvas) = 50
   \<and> mouse_pos_from_event sample_canvas sample_event = \<lparr>x = 100, y = 100\<rparr>"
proof -
  have h: "clientX sample_event = 150 \<and> clientY sample_event = 150
           \<and> left (getBoundingClientRect sample_canvas) = 50
           \<and> top' (getBoundingClientRect sample_canvas) = 50"
    by (simp add: sample_event_def sample_canvas_def)
  from h local_point [of sample_canvas sample_event] show ?thesis
    by blast
qed

text \<open>
  C8. When \<^verbatim>\<open>show_gui\<close> throws on the snapshot of the frame, the exception leaves \<^verbatim>\<open>rust_gui\<close>
  and then \<^verbatim>\<open>paint_gui\<close>, uncaught, and the canvas is the one before the call: no command
  has been interpreted and the log of its context has not grown.
\<close>

theorem failure_aborts_frame:
  assumes "show_gui h (JSON_stringify h
             \<lparr>mouse_pos = p,
              screen_size = \<lparr>x = canvas.width canvas, y = canvas.height canvas\<rparr>\<rparr>) = Inl e"
  shows "rust_gui h \<lparr>mouse_pos = p,
              screen_size = \<lparr>x = canvas.width canvas, y = canvas.height canvas\<rparr>\<rparr> = Inl e
     \<and> paint_gui h canvas p = (Some e, canvas)"
  using assms by (simp add: paint_gui_def rust_gui_def)

text \<open>Witness of C8: the logic layer that throws, on the sample canvas.\<close>

theorem failure_aborts_frame_witness:
  "show_gui failing_host (JSON_stringify failing_host
      \<lparr>mouse_pos = origin,
       screen_size = \<lparr>x = canvas.width sample_canvas, y = canvas.height sample_canvas\<rparr>\<rparr>)
     = Inl (Exn ''unreachable'')
   \<and> paint_gui failing_host sample_canvas origin = (Some (Exn ''unreachable''), sample_canvas)"
proof -
  let ?snap = "\<lparr>mouse_pos = origin,
       screen_size = \<lparr>x = canvas.width sample_canvas, y = canvas.height sample_canvas\<rparr>\<rparr>"
  have a: "show_gui failing_host (JSON_stringify failing_host ?snap)
             = Inl (Exn ''unreachable'')"
    by (simp add: failing_host_def)
  from a failure_aborts_frame [OF a] show ?thesis
    by simp
qed

text \<open>
  C9. For a \<^verbatim>\<open>rounded_rect\<close> command with \<^verbatim>\<open>corner_radius\<close> 0, each of the four curves of the
  path has both endpoints on its control point, the corner of the rectangle; the four
  straight segments run from corner to corner. Without the collapsed curves the path is
  the outline of the rectangle from \<^verbatim>\<open>pos\<close> to \<^verbatim>\<open>pos + size\<close>.
\<close>

theorem square_corners:
  assumes "kind cmd = ''rounded_rect''" and "corner_radius cmd = 0"
  shows "map_option traced (command_path canvas cmd) =
      Some (let top_left = pos cmd;
                top_right = offset (pos cmd) (point.x (size' cmd)) 0;
                bottom_right = offset (pos cmd) (point.x (size' cmd)) (point.y (size' cmd));
                bottom_left = offset (pos cmd) 0 (point.y (size' cmd))
            in [Straight top_left top_right,
                Quadratic top_right top_right top_right,
                Straight top_right bottom_right,
                Quadratic bottom_right bottom_right bottom_right,
                Straight bottom_right bottom_left,
                Quadratic bottom_left bottom_left bottom_left,
                Straight bottom_left top_left,
                Quadratic top_left top_left top_left])
    \<and> map_option (filter (\<lambda>g. \<not> collapsed g) \<circ> traced) (command_path canvas cmd) =
      Some (rectangle_outline (pos cmd) (size' cmd))"
  using assms(2)
  by (simp add: command_path_rounded_rect [OF assms(1)] rounded_rect_outline_def
      rectangle_outline_def offset_def Let_def)

text \<open>Witness of C9: the rectangle at \<open>(100, 100)\<close> of size 200 by 100 with radius 0.\<close>

theorem square_corners_witness:
  "kind square_rect_command = ''rounded_rect'' \<and> corner_radius square_rect_command = 0
   \<and> map_option (filter (\<lambda>g. \<not> collapsed g) \<circ> traced)
        (command_path sample_canvas square_rect_command) =
       Some [Straight \<lparr>x = 100, y = 100\<rparr> \<lparr>x = 300, y = 100\<rparr>,
             Straight \<lparr>x = 300, y = 100\<rparr> \<lparr>x = 300, y = 200\<rparr>,
             Straight \<lparr>x = 300, y = 200\<rparr> \<lparr>x = 100, y = 200\<rparr>,
             Straight \<lparr>x = 100, y = 200\<rparr> \<lparr>x = 100, y = 100\<rparr>]"
proof -
  have k: "kind square_rect_command = ''rounded_rect''"
    by (simp add: square_rect_command_def rounded_rect_command_def)
  have r: "corner_radius square_rect_command = 0"
    by (simp add: square_rect_command_def)
  have p: "pos square_rect_command = \<lparr>x = 100, y = 100\<rparr>"
    and s: "size' square_rect_command = \<lparr>x = 200, y = 100\<rparr>"
    by (simp_all add: square_rect_command_def rounded_rect_command_def)
  from k r square_corners [OF k r, of sample_canvas] show ?thesis
    by (simp add: p s rectangle_outline_def offset_def Let_def)
qed

text \<open>
  C10. For a command whose \<^verbatim>\<open>kind\<close> is not \<^verbatim>\<open>clear\<close>, the operations \<^verbatim>\<open>paintCommand\<close> issues are
  the same on any two canvases, whatever their widths and heights (and whatever else
  differs between them). Only the \<^verbatim>\<open>clear\<close> branch reads the dimensions, as
  \<open>clear_reads_dimensions\<close> shows.
\<close>

theorem unrelated_to_dimensions:
  assumes "kind cmd \<noteq> ''clear''"
  shows "issued c1 cmd = issued c2 cmd"
  using assms by (simp add: paintCommand_def issued_def call_def getContext_def Let_def)

text \<open>
  Witness of C10: the rounded rectangle on the 800 by 600 and on the 1024 by 768 canvas.
\<close>

theorem unrelated_to_dimensions_witness:
  "kind rounded_rect_command \<noteq> ''clear''
   \<and> canvas.width sample_canvas \<noteq> canvas.width wide_canvas
   \<and> canvas.height sample_canvas \<noteq> canvas.height wide_canvas
   \<and> issued sample_canvas rounded_rect_command = issued wide_canvas rounded_rect_command"
proof -
  have k: "kind rounded_rect_command \<noteq> ''clear''"
    by (simp add: rounded_rect_command_def)
  from k unrelated_to_dimensions [OF k, of sample_canvas wide_canvas] show ?thesis
    by (simp add: sample_canvas_def wide_canvas_def)
qed

end
